theory Spec2Isabelle
  imports Complex_Main "HOL-Library.Monad_Syntax" "HOL-Library.Word"
begin

section \<open>Numbers, vectors and the random source\<close>

text \<open>
  JavaScript numbers are modelled as reals, in exact arithmetic, with one exception: the
  product under \<open>Math.floor\<close> in the colour assignment is rounded as IEEE 754 binary64
  rounds it, because the floor is not continuous and the rounding decides the index.
  Overflow is outside the model. The operations of the source that can leave the finite
  reals on finite arguments are partial: they return \<open>None\<close> where JavaScript yields NaN
  or an infinity, and a computation that meets \<open>None\<close> is \<open>None\<close> as a whole.
\<close>

definition js_div :: "real \<Rightarrow> real \<Rightarrow> real option" where
  "js_div a b = (if b = 0 then None else Some (a / b))"

definition js_sqrt :: "real \<Rightarrow> real option" where
  "js_sqrt a = (if a < 0 then None else Some (sqrt a))"

definition js_acos :: "real \<Rightarrow> real option" where
  "js_acos a = (if - 1 \<le> a \<and> a \<le> 1 then Some (arccos a) else None)"

text \<open>\<open>Math.pow\<close> with a non-negative base; a negative base (NaN for the fractional
  exponent the source uses) and \<open>0\<close> to a negative power are \<open>None\<close>.\<close>

definition js_pow :: "real \<Rightarrow> real \<Rightarrow> real option" where
  "js_pow a b =
     (if b = 0 then Some 1
      else if 0 < a then Some (a powr b)
      else if a = 0 \<and> 0 < b then Some 0
      else None)"

text \<open>
  Rounding to binary64: round to nearest, ties to even, with the exponent of the
  subnormal range below \<open>2 ^ -1022\<close>. The doubles are the fixed points of the rounding.
  The magnitudes rounded here are below 1 times the length of an array, far from the
  overflow threshold.
\<close>

definition round_even :: "real \<Rightarrow> int" where
  "round_even y =
     (let f = \<lfloor>y\<rfloor>; d = y - of_int f
      in if d < 1 / 2 then f
         else if 1 / 2 < d then f + 1
         else if even f then f else f + 1)"

definition binary64 :: "real \<Rightarrow> real" where
  "binary64 x =
     (if x = 0 then 0
      else
        (let e = max \<lfloor>log 2 \<bar>x\<bar>\<rfloor> (- 1022);
             u = 2 powr (of_int e - 52)
         in of_int (round_even (x / u)) * u))"


type_synonym vec3 = "real \<times> real \<times> real"

text \<open>\<open>Vector3.setFromSphericalCoords(radius, phi, theta)\<close> of three.js.\<close>

definition setFromSphericalCoords :: "real \<Rightarrow> real \<Rightarrow> real \<Rightarrow> vec3" where
  "setFromSphericalCoords radius phi theta =
     (let sinPhiRadius = sin phi * radius
      in (sinPhiRadius * sin theta, cos phi * radius, sinPhiRadius * cos theta))"

text \<open>\<open>Vector3.multiplyScalar\<close> and the Euclidean length of a vector.\<close>

definition multiplyScalar :: "vec3 \<Rightarrow> real \<Rightarrow> vec3" where
  "multiplyScalar p s = (case p of (a, b, c) \<Rightarrow> (a * s, b * s, c * s))"

definition vlength :: "vec3 \<Rightarrow> real" where
  "vlength p = (case p of (a, b, c) \<Rightarrow> sqrt (a * a + b * b + c * c))"

text \<open>
  The ambient random source: the sequence of the values that the coming calls of
  \<open>Math.random()\<close> return. A call takes the head of the sequence. \<open>Math.random()\<close>
  returns a value in \<open>[0, 1)\<close>.
\<close>

type_synonym rng = "nat \<Rightarrow> real"

definition random :: "rng \<Rightarrow> real \<times> rng" where
  "random rs = (rs 0, \<lambda>n. rs (Suc n))"

definition unit_draws :: "rng \<Rightarrow> bool" where
  "unit_draws rs \<longleftrightarrow> (\<forall>n. 0 \<le> rs n \<and> rs n < 1)"


section \<open>Noise field\<close>

definition simpleNoise :: "real \<Rightarrow> real \<Rightarrow> real \<Rightarrow> real" where
  "simpleNoise a b c = sin a * cos b * sin c"

section \<open>Shape targets\<close>

text \<open>
  The shape is the string the switch of \<open>getTargetPosition\<close> compares at run time, so
  a string that is none of the five literals is an input of the model too. Each branch
  of the switch is a function of its own; the draws are taken in the order in which the
  source evaluates its calls of \<open>Math.random()\<close>.
\<close>

definition target_cat :: "real \<Rightarrow> real \<Rightarrow> real \<Rightarrow> rng \<Rightarrow> vec3 \<times> rng" where
  "target_cat ratio phi theta rs =
     (if ratio < 0.35 then
        (case setFromSphericalCoords 3 (phi * 2) theta of
           (a, b, c) \<Rightarrow> ((a, b + 3.5, c), rs))
      else if ratio < 0.85 then
        (case setFromSphericalCoords 4.5 phi theta of
           (a, b, c) \<Rightarrow> ((a, b - 2.5, c), rs))
      else if ratio < 0.92 then
        (let (r0, rs1) = random rs; (r1, rs2) = random rs1; (r2, rs3) = random rs2
         in ((- 2 + r0, 6 + r1 * 2, r2), rs3))
      else
        (let (r0, rs1) = random rs; (r1, rs2) = random rs1; (r2, rs3) = random rs2
         in ((2 + r0, 6 + r1 * 2, r2), rs3)))"

definition target_flower :: "real \<Rightarrow> rng \<Rightarrow> vec3 \<times> rng" where
  "target_flower theta rs =
     (let petalCount = 6;
          flowerR = 8 * \<bar>cos (petalCount * 0.5 * theta)\<bar>;
          (r0, rs1) = random rs;
          r = r0 * flowerR + 2;
          z = sin r * 2;
          (r1, rs2) = random rs1
      in ((r * cos theta, r * sin theta, z + (r1 - 0.5) * 2), rs2))"

definition fish_body :: "real \<Rightarrow> real \<Rightarrow> real \<Rightarrow> rng \<Rightarrow> vec3 \<times> rng" where
  "fish_body fishL width height rs =
     (let (r0, rs1) = random rs;
          angle = r0 * pi * 2;
          (rad, rs2) = random rs1
      in ((fishL, cos angle * height * rad, sin angle * width * rad), rs2))"

definition fish_tail :: "real \<Rightarrow> rng \<Rightarrow> vec3 \<times> rng" where
  "fish_tail fishL rs =
     (let (r0, rs1) = random rs; (r1, rs2) = random rs1
      in ((fishL - 2, (r0 - 0.5) * 8, (r1 - 0.5) * 2), rs2))"

definition fish_axis :: "real \<Rightarrow> real" where
  "fish_axis ratio = (ratio - 0.5) * 15"

definition target_fish :: "real \<Rightarrow> rng \<Rightarrow> vec3 \<times> rng" where
  "target_fish ratio rs =
     (let fishL = fish_axis ratio;
          width = cos (fishL * 0.2) * 4;
          height = cos (fishL * 0.2) * 5
      in if \<bar>fishL\<bar> < 7 then fish_body fishL width height rs
         else fish_tail fishL rs)"

definition target_star :: "nat \<Rightarrow> real \<Rightarrow> real \<Rightarrow> rng \<Rightarrow> (vec3 \<times> rng) option" where
  "target_star i phi theta rs =
     (let (r0, rs1) = random rs
      in case js_pow r0 0.3 of
           None \<Rightarrow> None
         | Some pw \<Rightarrow>
             (let starR = pw * 12;
                  p = setFromSphericalCoords starR phi theta
              in Some (if i mod 20 = 0 then multiplyScalar p 1.5 else p, rs1)))"

definition target_sphere :: "real \<Rightarrow> real \<Rightarrow> vec3" where
  "target_sphere phi theta = (let sphereR = 10 in setFromSphericalCoords sphereR phi theta)"

definition getTargetPosition :: "nat \<Rightarrow> nat \<Rightarrow> string \<Rightarrow> rng \<Rightarrow> (vec3 \<times> rng) option" where
  "getTargetPosition i count shape rs =
     do {
       ratio \<leftarrow> js_div (real i) (real count);
       q \<leftarrow> js_div (2 * real i) (real count);
       phi \<leftarrow> js_acos (- 1 + q);
       root \<leftarrow> js_sqrt (real count * pi);
       let theta = root * phi in
       if shape = ''cat'' then Some (target_cat ratio phi theta rs)
       else if shape = ''flower'' then Some (target_flower theta rs)
       else if shape = ''fish'' then Some (target_fish ratio rs)
       else if shape = ''star'' then target_star i phi theta rs
       else Some (target_sphere phi theta, rs)
     }"

section \<open>Particle store\<close>

record particle =
  p_t :: real
  p_x :: real
  p_y :: real
  p_z :: real
  baseX :: real
  baseY :: real
  baseZ :: real
  vx :: real
  vy :: real
  vz :: real

definition position :: "particle \<Rightarrow> vec3" where
  "position p = (p_x p, p_y p, p_z p)"

definition velocity :: "particle \<Rightarrow> vec3" where
  "velocity p = (vx p, vy p, vz p)"

definition basePosition :: "particle \<Rightarrow> vec3" where
  "basePosition p = (baseX p, baseY p, baseZ p)"

definition vsub :: "vec3 \<Rightarrow> vec3 \<Rightarrow> vec3" where
  "vsub u w = (case u of (a, b, c) \<Rightarrow> case w of (a', b', c') \<Rightarrow> (a - a', b - b', c - c'))"

text \<open>The initial store of the \<open>particles\<close> memo: seven draws for each particle.\<close>

definition new_particle :: "rng \<Rightarrow> particle \<times> rng" where
  "new_particle rs =
     (let (r0, rs1) = random rs; (r1, rs2) = random rs1; (r2, rs3) = random rs2;
          (r3, rs4) = random rs3; (r4, rs5) = random rs4; (r5, rs6) = random rs5;
          (r6, rs7) = random rs6
      in (\<lparr>p_t = r0 * 100,
           p_x = (r1 - 0.5) * 50, p_y = (r2 - 0.5) * 50, p_z = (r3 - 0.5) * 50,
           baseX = (r4 - 0.5) * 20, baseY = (r5 - 0.5) * 20, baseZ = (r6 - 0.5) * 20,
           vx = 0, vy = 0, vz = 0\<rparr>, rs7))"

fun init_particles :: "nat \<Rightarrow> rng \<Rightarrow> particle list \<times> rng" where
  "init_particles 0 rs = ([], rs)"
| "init_particles (Suc n) rs =
     (let (p, rs1) = new_particle rs; (ps, rs2) = init_particles n rs1
      in (p # ps, rs2))"

section \<open>Per-frame step\<close>

record VisualParams =
  chaos :: real
  speed :: real
  size_mult :: real
  colorPalette :: "string list"
  shape :: string

record HandPosition =
  hand_x :: real
  hand_y :: real
  isDetected :: bool

text \<open>The values one frame reads once and then uses for every particle.\<close>

record frame_env =
  env_count :: nat
  env_shape :: string
  env_speed :: real
  env_chaos :: real
  env_bass :: real
  env_handX :: real
  env_handY :: real
  env_isHandActive :: bool

text \<open>Morph: the base position moves 3 percent of the way to the target.\<close>

definition morph_axis :: "real \<Rightarrow> real \<Rightarrow> real" where
  "morph_axis tgt b = b + (tgt - b) * 0.03"

definition morph :: "vec3 \<Rightarrow> particle \<Rightarrow> particle" where
  "morph target p =
     (case target of (tx, ty, tz) \<Rightarrow>
        p\<lparr>baseX := morph_axis tx (baseX p),
          baseY := morph_axis ty (baseY p),
          baseZ := morph_axis tz (baseZ p)\<rparr>)"

definition noiseScale_of :: "string \<Rightarrow> real \<Rightarrow> real" where
  "noiseScale_of sh ch =
     (let noiseScale = ch;
          noiseScale = (if sh = ''cat'' then noiseScale * 0.5 else noiseScale);
          noiseScale = (if sh = ''fish'' then noiseScale * 1.5 else noiseScale)
      in noiseScale)"

text \<open>The current target: the morphed base position plus the noise, read after the
  phase \<open>p_t\<close> has advanced.\<close>

definition currentTarget :: "frame_env \<Rightarrow> particle \<Rightarrow> vec3" where
  "currentTarget env p =
     (let noiseScale = noiseScale_of (env_shape env) (env_chaos env);
          noiseX = simpleNoise (p_t p) (baseZ p * 0.1) (baseX p * 0.1) * noiseScale * 5;
          noiseY = simpleNoise (baseY p * 0.1) (p_t p) (baseZ p * 0.1) * noiseScale * 5;
          noiseZ = simpleNoise (baseZ p * 0.1) (baseX p * 0.1) (p_t p) * noiseScale * 5
      in (baseX p + noiseX, baseY p + noiseY, baseZ p + noiseZ))"

text \<open>The force of the pointer on one particle, added to its velocity.\<close>

definition hand_interaction :: "frame_env \<Rightarrow> particle \<Rightarrow> rng \<Rightarrow> (particle \<times> rng) option" where
  "hand_interaction env p rs =
     (if env_isHandActive env then
        do {
          let dx = p_x p - env_handX env;
          let dy = p_y p - env_handY env;
          let dz = p_z p - 0;
          dist \<leftarrow> js_sqrt (dx * dx + dy * dy + dz * dz);
          let radius = 25;
          if dist < radius then
            do {
              quot \<leftarrow> js_div dist radius;
              let influence = 1 - quot;
              let power = influence * influence;
              if env_shape env = ''cat'' \<and> dist < 8 then
                (let p1 = p\<lparr>vx := vx p - dx * 0.05 * power,
                             vy := vy p - dy * 0.05 * power,
                             vz := vz p - dz * 0.05 * power\<rparr>;
                     (r0, rs1) = random rs
                 in Some (p1\<lparr>vx := vx p1 + (r0 - 0.5) * 0.5 * power\<rparr>, rs1))
              else if env_shape env = ''flower'' then
                Some (p\<lparr>vx := vx p + dx * 0.1 * power,
                         vy := vy p + dy * 0.1 * power\<rparr>, rs)
              else
                (let swirlSpeed = 0.8 * power;
                     p1 = p\<lparr>vx := vx p + (- dy * swirlSpeed * 0.1),
                             vy := vy p + dx * swirlSpeed * 0.1\<rparr>;
                     suction = 0.5 * power
                 in Some (p1\<lparr>vx := vx p1 - dx * suction * 0.1,
                              vy := vy p1 - dy * suction * 0.1,
                              vz := vz p1 - dz * suction * 0.1\<rparr>, rs))
            }
          else Some (p, rs)
        }
      else Some (p, rs))"

text \<open>Friction, spring towards the current target, and the Euler step.\<close>

definition integrate :: "frame_env \<Rightarrow> vec3 \<Rightarrow> particle \<Rightarrow> particle" where
  "integrate env ct p =
     (case ct of (currentTargetX, currentTargetY, currentTargetZ) \<Rightarrow>
        (let p1 = p\<lparr>vx := vx p * 0.92, vy := vy p * 0.92, vz := vz p * 0.92\<rparr>;
             springStrength = (if env_isHandActive env then 0.01 else 0.05);
             p2 = p1\<lparr>vx := vx p1 + (currentTargetX - p_x p1) * springStrength,
                      vy := vy p1 + (currentTargetY - p_y p1) * springStrength,
                      vz := vz p1 + (currentTargetZ - p_z p1) * springStrength\<rparr>
         in p2\<lparr>p_x := p_x p2 + vx p2, p_y := p_y p2 + vy p2, p_z := p_z p2 + vz p2\<rparr>))"

text \<open>The body of the \<open>forEach\<close> over the particles, for the particle of index \<open>i\<close>.\<close>

definition update_particle :: "frame_env \<Rightarrow> nat \<Rightarrow> particle \<Rightarrow> rng \<Rightarrow> (particle \<times> rng) option" where
  "update_particle env i p rs =
     do {
       (target, rs1) \<leftarrow> getTargetPosition i (env_count env) (env_shape env) rs;
       let p1 = morph target p;
       let p2 = p1\<lparr>p_t := p_t p1 + env_speed env * (0.005 + env_bass env * 0.05)\<rparr>;
       let ct = currentTarget env p2;
       (p3, rs2) \<leftarrow> hand_interaction env p2 rs1;
       Some (integrate env ct p3, rs2)
     }"

fun update_all :: "frame_env \<Rightarrow> nat \<Rightarrow> particle list \<Rightarrow> rng \<Rightarrow> (particle list \<times> rng) option" where
  "update_all env i [] rs = Some ([], rs)"
| "update_all env i (p # ps) rs =
     (case update_particle env i p rs of
        None \<Rightarrow> None
      | Some (p', rs1) \<Rightarrow>
          (case update_all env (Suc i) ps rs1 of
             None \<Rightarrow> None
           | Some (ps', rs2) \<Rightarrow> Some (p' # ps', rs2)))"

text \<open>The two audio bands: the mean of bins 0..9 and of bins 100..149 of the byte
  spectrum, scaled to the unit interval.\<close>

definition band_sum :: "8 word list \<Rightarrow> real" where
  "band_sum bins = foldl (\<lambda>a b. a + real (unat b)) 0 bins"

definition bass_of :: "8 word list \<Rightarrow> real option" where
  "bass_of freqData = do { m \<leftarrow> js_div (band_sum (take 10 freqData)) 10; js_div m 255 }"

definition treble_of :: "8 word list \<Rightarrow> real option" where
  "treble_of freqData =
     do { m \<leftarrow> js_div (band_sum (take 50 (drop 100 freqData))) 50; js_div m 255 }"

text \<open>
  The frame callback. \<open>count\<close> is the constant of the component (4000 in the source),
  \<open>mesh\<close> says whether \<open>mesh.current\<close> is set, \<open>songData\<close> carries the visual parameters
  of the song, the only part of it that the step reads.
\<close>

definition particle_count :: nat where
  "particle_count = 4000"

definition useFrame ::
  "nat \<Rightarrow> bool \<Rightarrow> VisualParams option \<Rightarrow> HandPosition \<Rightarrow> 8 word list \<Rightarrow>
   particle list \<Rightarrow> rng \<Rightarrow> (particle list \<times> rng) option" where
  "useFrame count mesh songData handPosition freqData particles rs =
     (if \<not> mesh then Some (particles, rs)
      else
        case songData of
          None \<Rightarrow> Some (particles, rs)
        | Some vp \<Rightarrow>
            do {
              bass \<leftarrow> bass_of freqData;
              treble \<leftarrow> treble_of freqData;
              let env = \<lparr>env_count = count, env_shape = shape vp, env_speed = speed vp,
                         env_chaos = chaos vp, env_bass = bass,
                         env_handX = hand_x handPosition * 30,
                         env_handY = hand_y handPosition * 20,
                         env_isHandActive = isDetected handPosition\<rparr>;
              update_all env 0 particles rs
            })"

fun run_frames ::
  "nat \<Rightarrow> nat \<Rightarrow> bool \<Rightarrow> VisualParams option \<Rightarrow> HandPosition \<Rightarrow> 8 word list \<Rightarrow>
   particle list \<Rightarrow> rng \<Rightarrow> (particle list \<times> rng) option" where
  "run_frames 0 count mesh songData handPosition freqData particles rs = Some (particles, rs)"
| "run_frames (Suc k) count mesh songData handPosition freqData particles rs =
     (case useFrame count mesh songData handPosition freqData particles rs of
        None \<Rightarrow> None
      | Some (ps, rs1) \<Rightarrow> run_frames k count mesh songData handPosition freqData ps rs1)"


section \<open>Colour assignment\<close>




text \<open>\<open>Math.floor(Math.random() * colors.length)\<close>: the floor of the rounded product.\<close>

definition color_index :: "nat \<Rightarrow> real \<Rightarrow> int" where
  "color_index n r = \<lfloor>binary64 (r * real n)\<rfloor>"





section \<open>Render output of a frame\<close>



section \<open>Reference behaviour of the specification\<close>

text \<open>
  The specification's reading of two places, written from its words, to be compared
  with the functions above: the fish samples its tail lobe where the body-axis
  coordinate is beyond 7 in absolute value and its body elsewhere; malformed visual
  parameters are clamped to their ranges and an unknown shape becomes the sphere.
\<close>

definition spec_target_fish :: "real \<Rightarrow> rng \<Rightarrow> vec3 \<times> rng" where
  "spec_target_fish ratio rs =
     (let fishL = fish_axis ratio
      in if \<bar>fishL\<bar> > 7 then fish_tail fishL rs
         else fish_body fishL (cos (fishL * 0.2) * 4) (cos (fishL * 0.2) * 5) rs)"




text \<open>A random source that returns the same value at every call.\<close>

definition constant_draws :: "real \<Rightarrow> rng" where
  "constant_draws r = (\<lambda>n. r)"

section \<open>Sample inputs\<close>

text \<open>A frame with the pointer at the origin and the fish shape, and a particle at
  distance 1 from the pointer.\<close>

definition sample_env :: frame_env where
  "sample_env = \<lparr>env_count = 100, env_shape = ''fish'', env_speed = 1, env_chaos = 0,
     env_bass = 0, env_handX = 0, env_handY = 0, env_isHandActive = True\<rparr>"

definition sample_particle :: particle where
  "sample_particle = \<lparr>p_t = 0, p_x = 1, p_y = 0, p_z = 0, baseX = 0, baseY = 0, baseZ = 0,
     vx = 0, vy = 0, vz = 0\<rparr>"

text \<open>A detected pointer at the origin with a particle exactly under it, an idle
  pointer, and two malformed parameter bundles: one with a speed above its range, one
  with an unknown shape and a chaos above its range.\<close>

definition active_hand :: HandPosition where
  "active_hand = \<lparr>hand_x = 0, hand_y = 0, isDetected = True\<rparr>"

definition origin_particle :: particle where
  "origin_particle = \<lparr>p_t = 0, p_x = 0, p_y = 0, p_z = 0, baseX = 1, baseY = 2, baseZ = 3,
     vx = 0, vy = 0, vz = 0\<rparr>"

definition idle_hand :: HandPosition where
  "idle_hand = \<lparr>hand_x = 0, hand_y = 0, isDetected = False\<rparr>"

definition fast_params :: VisualParams where
  "fast_params = \<lparr>chaos = 0, speed = 5, size_mult = 1, colorPalette = [''#ffffff''],
     shape = ''sphere''\<rparr>"



section \<open>Idle dynamics of the sphere\<close>

text \<open>
  What the analysis of the idle sphere needs: the target of particle \<open>i\<close> on the
  sphere, the initial state of a particle (position in \<open>[-25, 25]\<^sup>3\<close>, base position in
  \<open>[-10, 10]\<^sup>3\<close>, velocity zero), the closed form of one idle frame for one particle, and
  a quadratic energy of one axis that one idle frame scales by exactly \<open>0.92\<close>.
\<close>

definition sphere_target :: "nat \<Rightarrow> nat \<Rightarrow> vec3" where
  "sphere_target count i =
     (let phi = arccos (- 1 + 2 * real i / real count);
          theta = sqrt (real count * pi) * phi
      in target_sphere phi theta)"

definition initial_state :: "particle \<Rightarrow> bool" where
  "initial_state p \<longleftrightarrow>
     \<bar>p_x p\<bar> \<le> 25 \<and> \<bar>p_y p\<bar> \<le> 25 \<and> \<bar>p_z p\<bar> \<le> 25
     \<and> \<bar>baseX p\<bar> \<le> 10 \<and> \<bar>baseY p\<bar> \<le> 10 \<and> \<bar>baseZ p\<bar> \<le> 10
     \<and> vx p = 0 \<and> vy p = 0 \<and> vz p = 0"

definition axis_energy :: "real \<Rightarrow> real \<Rightarrow> real \<Rightarrow> real \<Rightarrow> real" where
  "axis_energy tgt x v b =
     (let u = b - tgt;
          e = x - tgt - 9409 / 9400 * u;
          w = v + 291 / 9400 * u
      in 5 * (e * e) + 3 * (e * w) + 92 * (w * w))"

definition axis_settled :: "nat \<Rightarrow> real \<Rightarrow> real \<Rightarrow> real \<Rightarrow> real \<Rightarrow> bool" where
  "axis_settled k tgt x v b \<longleftrightarrow>
     axis_energy tgt x v b \<le> 16000 * 0.92 ^ k \<and> \<bar>b - tgt\<bar> \<le> 20 * 0.97 ^ k"

definition settled :: "nat \<Rightarrow> vec3 \<Rightarrow> particle \<Rightarrow> bool" where
  "settled k T p \<longleftrightarrow>
     (case T of (tx, ty, tz) \<Rightarrow>
        axis_settled k tx (p_x p) (vx p) (baseX p)
        \<and> axis_settled k ty (p_y p) (vy p) (baseY p)
        \<and> axis_settled k tz (p_z p) (vz p) (baseZ p))"

definition calm_params :: VisualParams where
  "calm_params = \<lparr>chaos = 0, speed = 0, size_mult = 1, colorPalette = [''#ffffff''],
     shape = ''sphere''\<rparr>"

definition idle_update :: "vec3 \<Rightarrow> real \<Rightarrow> particle \<Rightarrow> particle" where
  "idle_update T dt p =
     (case T of (tx, ty, tz) \<Rightarrow>
        \<lparr>p_t = p_t p + dt,
         p_x = p_x p + (vx p * 0.92 + (morph_axis tx (baseX p) - p_x p) * 0.05),
         p_y = p_y p + (vy p * 0.92 + (morph_axis ty (baseY p) - p_y p) * 0.05),
         p_z = p_z p + (vz p * 0.92 + (morph_axis tz (baseZ p) - p_z p) * 0.05),
         baseX = morph_axis tx (baseX p),
         baseY = morph_axis ty (baseY p),
         baseZ = morph_axis tz (baseZ p),
         vx = vx p * 0.92 + (morph_axis tx (baseX p) - p_x p) * 0.05,
         vy = vy p * 0.92 + (morph_axis ty (baseY p) - p_y p) * 0.05,
         vz = vz p * 0.92 + (morph_axis tz (baseZ p) - p_z p) * 0.05\<rparr>)"

section \<open>Noise displacement\<close>


section \<open>Geometry of the shape targets\<close>

lemma spherical_algebra:
  fixes r :: real
  shows "(s * r * st) * (s * r * st) + (c * r) * (c * r) + (s * r * ct) * (s * r * ct)
      = r * r * (s * s * (ct * ct + st * st) + c * c)"
  by (simp add: algebra_simps)

lemma spherical_length_sq:
  "(case setFromSphericalCoords r ph th of (a, b, c) \<Rightarrow> a * a + b * b + c * c) = r * r"
proof -
  have t: "cos th * cos th + sin th * sin th = 1"
    by (rule sin_cos_squared_add3)
  have p: "sin ph * sin ph + cos ph * cos ph = 1"
    using sin_cos_squared_add3 [of ph] by linarith
  have "(sin ph * r * sin th) * (sin ph * r * sin th) + (cos ph * r) * (cos ph * r)
        + (sin ph * r * cos th) * (sin ph * r * cos th)
      = r * r * (sin ph * sin ph * (cos th * cos th + sin th * sin th) + cos ph * cos ph)"
    by (rule spherical_algebra)
  also have "\<dots> = r * r"
    by (simp only: t p mult_1_right)
  finally show ?thesis
    by (simp add: setFromSphericalCoords_def Let_def)
qed

lemma vlength_spherical: "vlength (setFromSphericalCoords r ph th) = \<bar>r\<bar>"
  using spherical_length_sq [of r ph th]
  by (auto simp: vlength_def split: prod.splits)

lemma vlength_multiplyScalar: "vlength (multiplyScalar p s) = \<bar>s\<bar> * vlength p"
proof -
  obtain a b c where p: "p = (a, b, c)" by (cases p) auto
  have "(a * s) * (a * s) + (b * s) * (b * s) + (c * s) * (c * s) = s\<^sup>2 * (a * a + b * b + c * c)"
    by (simp add: power2_eq_square algebra_simps)
  then show ?thesis
    by (simp add: p vlength_def multiplyScalar_def real_sqrt_mult)
qed

lemma vlength_box:
  assumes "\<bar>a\<bar> \<le> A" "\<bar>b\<bar> \<le> B" "\<bar>c\<bar> \<le> C" "A * A + B * B + C * C < 400"
  shows "vlength (a, b, c) < 20"
proof -
  have "0 \<le> A" "0 \<le> B" "0 \<le> C" using assms by linarith+
  then have "a\<^sup>2 \<le> A\<^sup>2" "b\<^sup>2 \<le> B\<^sup>2" "c\<^sup>2 \<le> C\<^sup>2"
    using assms by (simp_all add: power2_le_iff_abs_le)
  then have "a * a + b * b + c * c < 20\<^sup>2"
    using assms(4) by (simp add: power2_eq_square)
  then have "sqrt (a * a + b * b + c * c) < 20"
    by (intro real_less_lsqrt) auto
  then show ?thesis by (simp add: vlength_def)
qed

lemma getTargetPosition_prelude:
  assumes "i < count"
  shows "getTargetPosition i count sh rs =
     (let ratio = real i / real count;
          phi = arccos (- 1 + 2 * real i / real count);
          theta = sqrt (real count * pi) * phi
      in if sh = ''cat'' then Some (target_cat ratio phi theta rs)
       else if sh = ''flower'' then Some (target_flower theta rs)
       else if sh = ''fish'' then Some (target_fish ratio rs)
       else if sh = ''star'' then target_star i phi theta rs
       else Some (target_sphere phi theta, rs))"
proof -
  have c: "real count \<noteq> 0" "0 < real count" using assms by auto
  have "2 * real i / real count < 2"
    using assms c by (simp add: field_simps)
  moreover have "0 \<le> 2 * real i / real count" by simp
  ultimately have r: "- 1 \<le> - 1 + 2 * real i / real count" "- 1 + 2 * real i / real count \<le> 1"
    by linarith+
  have s: "\<not> real count * pi < 0" using c by (simp add: mult_less_0_iff)
  show ?thesis
    unfolding getTargetPosition_def
    using c r s by (simp add: js_div_def js_acos_def js_sqrt_def Let_def)
qed

lemma abs_unit_mult:
  fixes u w :: real
  assumes "\<bar>u\<bar> \<le> 1" "\<bar>w\<bar> \<le> W"
  shows "\<bar>u * w\<bar> \<le> W"
proof -
  have "\<bar>u\<bar> * \<bar>w\<bar> \<le> 1 * W"
    using assms by (intro mult_mono) auto
  then show ?thesis by (simp add: abs_mult)
qed

lemma flower_depth_bound:
  fixes s q :: real
  assumes "- 1 \<le> s" "s \<le> 1" "0 \<le> q" "q < 1"
  shows "\<bar>s * 2 + (q - 0.5) * 2\<bar> \<le> 3"
  using assms by (simp add: abs_le_iff)

lemma fish_section_bound:
  fixes ca ch rad k :: real
  assumes "\<bar>ca\<bar> \<le> 1" "\<bar>ch\<bar> \<le> 1" "0 \<le> rad" "rad < 1" "0 \<le> k"
  shows "\<bar>ca * (ch * k) * rad\<bar> \<le> k"
proof -
  have "k * rad \<le> k * 1"
    using assms by (intro mult_left_mono) auto
  then have "\<bar>k * rad\<bar> \<le> k"
    using assms by (simp add: abs_mult)
  then have "\<bar>ch * (k * rad)\<bar> \<le> k"
    using assms(2) by (rule abs_unit_mult [rotated])
  then have "\<bar>ca * (ch * (k * rad))\<bar> \<le> k"
    using assms(1) by (rule abs_unit_mult [rotated])
  then show ?thesis by (simp add: mult.assoc)
qed

lemma spherical_components:
  assumes "0 \<le> r" "setFromSphericalCoords r ph th = (a, b, c)"
  shows "\<bar>a\<bar> \<le> r" "\<bar>b\<bar> \<le> r" "\<bar>c\<bar> \<le> r"
proof -
  have r: "\<bar>r\<bar> \<le> r" using assms(1) by simp
  have a: "a = sin ph * (sin th * r)" and b: "b = cos ph * r" and c: "c = sin ph * (cos th * r)"
    using assms(2) by (simp_all add: setFromSphericalCoords_def Let_def mult_ac)
  show "\<bar>a\<bar> \<le> r" unfolding a by (intro abs_unit_mult r) simp_all
  show "\<bar>b\<bar> \<le> r" unfolding b by (intro abs_unit_mult r) simp_all
  show "\<bar>c\<bar> \<le> r" unfolding c by (intro abs_unit_mult r) simp_all
qed

lemma unit_draws_random:
  assumes "unit_draws rs"
  shows "0 \<le> fst (random rs)" "fst (random rs) < 1" "unit_draws (snd (random rs))"
  using assms by (simp_all add: unit_draws_def random_def)

lemma target_sphere_length: "vlength (target_sphere ph th) = 10"
  by (simp add: target_sphere_def vlength_spherical)

lemma target_cat_bound:
  assumes "unit_draws rs"
  shows "vlength (fst (target_cat ratio ph th rs)) < 20"
proof -
  obtain a b c where h: "setFromSphericalCoords 3 (ph * 2) th = (a, b, c)"
    by (cases "setFromSphericalCoords 3 (ph * 2) th") auto
  obtain a' b' c' where d: "setFromSphericalCoords (9 / 2) ph th = (a', b', c')"
    by (cases "setFromSphericalCoords (9 / 2) ph th") auto
  have hb: "\<bar>a\<bar> \<le> 3" "\<bar>b\<bar> \<le> 3" "\<bar>c\<bar> \<le> 3"
    using spherical_components [OF _ h] by simp_all
  have db: "\<bar>a'\<bar> \<le> 4.5" "\<bar>b'\<bar> \<le> 4.5" "\<bar>c'\<bar> \<le> 4.5"
    using spherical_components [OF _ d] by simp_all
  have head: "vlength (a, b + 3.5, c) < 20"
    by (rule vlength_box [where A = 3 and B = "6.5" and C = 3]) (use hb in auto)
  have body: "vlength (a', b' - 2.5, c') < 20"
    by (rule vlength_box [where A = "4.5" and B = 7 and C = "4.5"]) (use db in auto)
  let ?r0 = "fst (random rs)" and ?rs1 = "snd (random rs)"
  let ?r1 = "fst (random ?rs1)" and ?rs2 = "snd (random ?rs1)"
  let ?r2 = "fst (random ?rs2)"
  have u1: "unit_draws ?rs1" and u2: "unit_draws ?rs2"
    using assms by (simp_all add: unit_draws_random)
  have r: "0 \<le> ?r0" "?r0 < 1" "0 \<le> ?r1" "?r1 < 1" "0 \<le> ?r2" "?r2 < 1"
    using assms u1 u2 by (simp_all add: unit_draws_random)
  have left: "vlength (- 2 + ?r0, 6 + ?r1 * 2, ?r2) < 20"
    by (rule vlength_box [where A = 3 and B = 8 and C = 1]) (use r in auto)
  have right: "vlength (2 + ?r0, 6 + ?r1 * 2, ?r2) < 20"
    by (rule vlength_box [where A = 3 and B = 8 and C = 1]) (use r in auto)
  show ?thesis
    using head body left right
    by (simp add: target_cat_def h d Let_def split_def)
qed

lemma target_flower_bound:
  assumes "unit_draws rs"
  shows "vlength (fst (target_flower th rs)) < 20"
proof -
  let ?r0 = "fst (random rs)" and ?rs1 = "snd (random rs)"
  let ?r1 = "fst (random ?rs1)"
  define flowerR where "flowerR = 8 * \<bar>cos (6 * 0.5 * th)\<bar>"
  define r where "r = ?r0 * flowerR + 2"
  have u1: "unit_draws ?rs1" using assms by (simp add: unit_draws_random)
  have d: "0 \<le> ?r0" "?r0 < 1" "0 \<le> ?r1" "?r1 < 1"
    using assms u1 by (simp_all add: unit_draws_random)
  have f: "0 \<le> flowerR" "flowerR \<le> 8"
    by (simp_all add: flowerR_def)
  have "?r0 * flowerR \<le> 1 * 8"
    using d f by (intro mult_mono) auto
  moreover have "0 \<le> ?r0 * flowerR" using d f by simp
  ultimately have rb: "\<bar>r\<bar> \<le> 10" by (simp add: r_def)
  have x: "\<bar>r * cos th\<bar> \<le> 10"
    using abs_unit_mult [of "cos th" r 10] rb by (simp add: mult.commute)
  have y: "\<bar>r * sin th\<bar> \<le> 10"
    using abs_unit_mult [of "sin th" r 10] rb by (simp add: mult.commute)
  have z: "\<bar>sin r * 2 + (?r1 - 0.5) * 2\<bar> \<le> 3"
    by (rule flower_depth_bound) (use d in simp_all)
  have "vlength (r * cos th, r * sin th, sin r * 2 + (?r1 - 0.5) * 2) < 20"
    by (rule vlength_box [OF x y z]) simp
  then show ?thesis
    by (simp add: target_flower_def Let_def split_def r_def flowerR_def)
qed

lemma target_fish_bound:
  assumes "unit_draws rs" "0 \<le> ratio" "ratio < 1"
  shows "vlength (fst (target_fish ratio rs)) < 20"
proof -
  let ?r0 = "fst (random rs)" and ?rs1 = "snd (random rs)"
  let ?r1 = "fst (random ?rs1)"
  define fishL where "fishL = fish_axis ratio"
  have u1: "unit_draws ?rs1" using assms by (simp add: unit_draws_random)
  have d: "0 \<le> ?r0" "?r0 < 1" "0 \<le> ?r1" "?r1 < 1"
    using assms u1 by (simp_all add: unit_draws_random)
  have l1: "fishL \<le> 7.5" and l2: "- fishL \<le> 7.5"
    unfolding fishL_def fish_axis_def using assms by simp_all
  have l: "\<bar>fishL\<bar> \<le> 7.5"
    by (rule abs_leI [OF l1 l2])
  have y: "\<bar>cos (?r0 * pi * 2) * (cos (fishL * 0.2) * 5) * ?r1\<bar> \<le> 5"
    by (rule fish_section_bound) (use d in simp_all)
  have z: "\<bar>sin (?r0 * pi * 2) * (cos (fishL * 0.2) * 4) * ?r1\<bar> \<le> 4"
    by (rule fish_section_bound) (use d in simp_all)
  have body: "vlength (fishL, cos (?r0 * pi * 2) * (cos (fishL * 0.2) * 5) * ?r1,
                 sin (?r0 * pi * 2) * (cos (fishL * 0.2) * 4) * ?r1) < 20"
    by (rule vlength_box [where A = "7.5" and B = 5 and C = 4])
      (use l y z in simp_all)
  have t1: "\<bar>fishL - 2\<bar> \<le> 9.5"
    using l1 l2 by (intro abs_leI) simp_all
  have t2: "\<bar>(?r0 - 0.5) * 8\<bar> \<le> 4" "\<bar>(?r1 - 0.5) * 2\<bar> \<le> 1"
    using d by (simp_all add: abs_le_iff)
  have tail: "vlength (fishL - 2, (?r0 - 0.5) * 8, (?r1 - 0.5) * 2) < 20"
    by (rule vlength_box [OF t1 t2]) simp
  show ?thesis
    using body tail
    by (simp add: target_fish_def fish_body_def fish_tail_def Let_def split_def fishL_def)
qed

lemma js_pow_unit:
  assumes "0 \<le> a" "a < 1"
  shows "\<exists>w. js_pow a 0.3 = Some w \<and> 0 \<le> w \<and> w \<le> 1"
proof (cases "a = 0")
  case True
  then show ?thesis by (simp add: js_pow_def)
next
  case False
  then have "0 < a" using assms by simp
  moreover have "a powr 0.3 \<le> 1"
    using assms by (intro powr_le1) simp_all
  ultimately show ?thesis by (simp add: js_pow_def)
qed

lemma target_star_bound:
  assumes "unit_draws rs"
  shows "\<exists>p rs'. target_star i ph th rs = Some (p, rs') \<and> vlength p < 20"
proof -
  let ?r0 = "fst (random rs)"
  have "0 \<le> ?r0" "?r0 < 1" using assms by (simp_all add: unit_draws_random)
  then obtain w where w: "js_pow ?r0 0.3 = Some w" "0 \<le> w" "w \<le> 1"
    using js_pow_unit by blast
  have "vlength (setFromSphericalCoords (w * 12) ph th) \<le> 12"
    using w by (simp add: vlength_spherical abs_mult)
  then show ?thesis
    using w by (simp add: target_star_def Let_def split_def vlength_multiplyScalar)
qed

text \<open>
  C1. For every particle index \<open>i < count\<close>, each of the five shape literals and every
  sequence of draws of the random source in \<open>[0, 1)\<close>, \<open>getTargetPosition\<close> returns a
  vector (no operation leaves the finite reals) whose Euclidean length is strictly less
  than 20.
\<close>

theorem getTargetPosition_bounded:
  assumes "i < count"
    and "sh \<in> {''sphere'', ''cat'', ''flower'', ''fish'', ''star''}"
    and "unit_draws rs"
  shows "\<exists>p rs'. getTargetPosition i count sh rs = Some (p, rs') \<and> vlength p < 20"
proof -
  have c: "0 < real count" using assms(1) by simp
  have ratio: "0 \<le> real i / real count" "real i / real count < 1"
    using assms(1) c by simp_all
  consider "sh = ''cat''" | "sh = ''flower''" | "sh = ''fish''" | "sh = ''star''" | "sh = ''sphere''"
    using assms(2) by auto
  then show ?thesis
  proof cases
    case 1
    then show ?thesis
      using target_cat_bound [OF assms(3)]
      by (simp add: getTargetPosition_prelude [OF assms(1)] Let_def prod_eq_iff)
  next
    case 2
    then show ?thesis
      using target_flower_bound [OF assms(3)]
      by (simp add: getTargetPosition_prelude [OF assms(1)] Let_def prod_eq_iff)
  next
    case 3
    then show ?thesis
      using target_fish_bound [OF assms(3) ratio]
      by (simp add: getTargetPosition_prelude [OF assms(1)] Let_def prod_eq_iff)
  next
    case 4
    then show ?thesis
      using target_star_bound [OF assms(3)]
      by (simp add: getTargetPosition_prelude [OF assms(1)] Let_def)
  next
    case 5
    then show ?thesis
      by (simp add: getTargetPosition_prelude [OF assms(1)] Let_def target_sphere_length)
  qed
qed

theorem getTargetPosition_bounded_witness:
  "(7::nat) < 100 \<and> ''fish'' \<in> {''sphere'', ''cat'', ''flower'', ''fish'', ''star''}
   \<and> unit_draws (constant_draws (1 / 2))
   \<and> (\<exists>p rs'. getTargetPosition 7 100 ''fish'' (constant_draws (1 / 2)) = Some (p, rs')
        \<and> vlength p < 20)"
  using getTargetPosition_bounded [of 7 100 "''fish''" "constant_draws (1 / 2)"]
  by (simp add: unit_draws_def constant_draws_def)

section \<open>The sphere branch\<close>

text \<open>
  C10. For the shape \<open>sphere\<close>, and for every string that is none of \<open>cat\<close>,
  \<open>flower\<close>, \<open>fish\<close>, \<open>star\<close> (the default branch of the switch),
  \<open>getTargetPosition\<close> is deterministic: the result is the point of spherical
  coordinates with radius 10, \<open>phi = acos(-1 + 2i/count)\<close> and
  \<open>theta = sqrt(count * pi) * phi\<close>, whatever the random source is, and the random
  source is handed back untouched.
\<close>

theorem getTargetPosition_sphere_deterministic:
  assumes "i < count" and "sh \<notin> {''cat'', ''flower'', ''fish'', ''star''}"
  shows "getTargetPosition i count sh rs =
     Some (let phi = arccos (- 1 + 2 * real i / real count);
               theta = sqrt (real count * pi) * phi
           in setFromSphericalCoords 10 phi theta, rs)"
  using assms(2)
  by (simp add: getTargetPosition_prelude [OF assms(1)] Let_def target_sphere_def)

theorem getTargetPosition_sphere_deterministic_witness:
  "(3::nat) < 100 \<and> ''sphere'' \<notin> {''cat'', ''flower'', ''fish'', ''star''}
   \<and> getTargetPosition 3 100 ''sphere'' (constant_draws (1 / 2)) =
     Some (let phi = arccos (- 1 + 2 * real (3::nat) / real (100::nat));
               theta = sqrt (real (100::nat) * pi) * phi
           in setFromSphericalCoords 10 phi theta, constant_draws (1 / 2))"
  using getTargetPosition_sphere_deterministic [of 3 100 "''sphere''" "constant_draws (1 / 2)"]
  by simp

section \<open>The fish: body and tail\<close>

text \<open>
  At \<open>i = 29\<close>, \<open>count = 30\<close> the body-axis coordinate is exactly 7: the source samples
  the tail lobe there, the specification's reading samples the body.
\<close>

theorem fish_boundary_counterexample:
  "getTargetPosition 29 30 ''fish'' (constant_draws 0)
     \<noteq> Some (spec_target_fish (real (29::nat) / real (30::nat)) (constant_draws 0))"
  by (simp add: getTargetPosition_prelude Let_def target_fish_def spec_target_fish_def
      fish_axis_def fish_body_def fish_tail_def random_def constant_draws_def)

text \<open>
  C7 (amended). For the shape \<open>fish\<close>, every \<open>count\<close> and every \<open>i < count\<close>, with
  \<open>fishL = (i/count - 0.5) * 15\<close>: the target samples the elliptical body cross-section
  exactly when \<open>|fishL| < 7\<close>, and the tail lobe exactly when \<open>|fishL| \<ge> 7\<close>.
\<close>

theorem fish_region:
  assumes "i < count"
  shows "getTargetPosition i count ''fish'' rs =
     Some (let fishL = fish_axis (real i / real count)
           in if \<bar>fishL\<bar> < 7
              then fish_body fishL (cos (fishL * 0.2) * 4) (cos (fishL * 0.2) * 5) rs
              else fish_tail fishL rs)"
  by (simp add: getTargetPosition_prelude [OF assms(1)] Let_def target_fish_def)

theorem fish_region_witness:
  "(29::nat) < 30 \<and> getTargetPosition 29 30 ''fish'' (constant_draws 0) =
     Some (fish_tail 7 (constant_draws 0))"
  using fish_region [of 29 30 "constant_draws 0"]
  by (simp add: fish_axis_def)

section \<open>Pointer interaction\<close>

text \<open>
  C6. When the pointer is detected, the particle is at a distance \<open>0 < dist < 25\<close> from
  the pointer's world position \<open>(handX, handY, 0)\<close> and the shape is \<open>sphere\<close>,
  \<open>fish\<close> or \<open>star\<close>, the interaction adds to the velocity exactly the tangential
  vortex term \<open>(-dy, dx, 0) * 0.8 * power * 0.1\<close> plus the radial suction term
  \<open>-(dx, dy, dz) * 0.5 * power * 0.1\<close>, where \<open>influence = 1 - dist/25\<close> and
  \<open>power = influence\<^sup>2\<close>; nothing else of the particle changes and no random value
  is drawn.
\<close>

theorem vortex_suction:
  fixes env :: frame_env and p :: particle
  defines "dx \<equiv> p_x p - env_handX env"
    and "dy \<equiv> p_y p - env_handY env"
    and "dz \<equiv> p_z p"
  defines "dst \<equiv> sqrt (dx * dx + dy * dy + dz * dz)"
  defines "influence \<equiv> 1 - dst / 25"
  defines "pw \<equiv> influence * influence"
  assumes "env_isHandActive env"
    and "env_shape env \<in> {''sphere'', ''fish'', ''star''}"
    and "0 < dst" and "dst < 25"
  shows "hand_interaction env p rs =
     Some (p\<lparr>vx := vx p + (- dy) * 0.8 * pw * 0.1 + - dx * 0.5 * pw * 0.1,
             vy := vy p + dx * 0.8 * pw * 0.1 + - dy * 0.5 * pw * 0.1,
             vz := vz p + 0 * 0.8 * pw * 0.1 + - dz * 0.5 * pw * 0.1\<rparr>, rs)"
proof -
  have nn: "\<not> dx * dx + dy * dy + dz * dz < 0"
    by (simp add: not_less add_nonneg_nonneg)
  have sq: "js_sqrt (dx * dx + dy * dy + dz * dz) = Some dst"
    using nn by (simp add: js_sqrt_def dst_def)
  have dv: "js_div dst 25 = Some (dst / 25)"
    by (simp add: js_div_def)
  have sh: "env_shape env \<noteq> ''cat''" "env_shape env \<noteq> ''flower''"
    using assms(8) by auto
  have "hand_interaction env p rs =
      Some (p\<lparr>vx := vx p + (- dy * (0.8 * pw) * 0.1) - dx * (0.5 * pw) * 0.1,
              vy := vy p + dy * 0 + dx * (0.8 * pw) * 0.1 - dy * (0.5 * pw) * 0.1,
              vz := vz p - dz * (0.5 * pw) * 0.1\<rparr>, rs)"
    unfolding hand_interaction_def
    using assms(7,10) sh
    by (simp add: Let_def sq dv dx_def [symmetric] dy_def [symmetric] dz_def [symmetric]
        pw_def influence_def)
  then show ?thesis
    by (simp add: algebra_simps)
qed

theorem vortex_suction_witness:
  "env_isHandActive sample_env \<and> env_shape sample_env \<in> {''sphere'', ''fish'', ''star''}
   \<and> 0 < sqrt ((p_x sample_particle - env_handX sample_env) * (p_x sample_particle - env_handX sample_env)
        + (p_y sample_particle - env_handY sample_env) * (p_y sample_particle - env_handY sample_env) + p_z sample_particle * p_z sample_particle)
   \<and> sqrt ((p_x sample_particle - env_handX sample_env) * (p_x sample_particle - env_handX sample_env)
        + (p_y sample_particle - env_handY sample_env) * (p_y sample_particle - env_handY sample_env) + p_z sample_particle * p_z sample_particle) < 25
   \<and> hand_interaction sample_env sample_particle (constant_draws 0) =
       Some (sample_particle\<lparr>vx := - (288 / 6250), vy := 4608 / 62500, vz := 0\<rparr>, constant_draws 0)"
  using vortex_suction [of sample_env sample_particle "constant_draws 0"]
  by (simp add: sample_env_def sample_particle_def)

section \<open>Morphing of the base position\<close>

lemma morph_axis_affine: "morph_axis tgt (tgt + d) = tgt + d * 0.97"
  by (simp add: morph_axis_def algebra_simps)

lemma morph_axis_iter: "(morph_axis tgt ^^ k) b = tgt + (b - tgt) * 0.97 ^ k"
  by (induction k) (simp_all add: morph_axis_affine)

lemma morph_iter:
  "(morph (tx, ty, tz) ^^ k) p =
     p\<lparr>baseX := (morph_axis tx ^^ k) (baseX p),
       baseY := (morph_axis ty ^^ k) (baseY p),
       baseZ := (morph_axis tz ^^ k) (baseZ p)\<rparr>"
  by (induction k) (simp_all add: morph_def)

lemma vlength_scale:
  assumes "0 \<le> s"
  shows "vlength (a * s, b * s, c * s) = vlength (a, b, c) * s"
  using vlength_multiplyScalar [of "(a, b, c)" s] assms
  by (simp add: multiplyScalar_def mult.commute)

text \<open>
  C3. The morph update is \<open>base += (target - base) * 0.03\<close> on each axis. Hence, for a
  target \<open>T\<close> held fixed over \<open>k\<close> frames, the distance of the base position to \<open>T\<close>
  after the \<open>k\<close> updates is exactly the initial distance times \<open>0.97 ^ k\<close> (in exact
  arithmetic).
\<close>

theorem morph_geometric_decay:
  "vlength (vsub (basePosition ((morph T ^^ k) p)) T)
     = vlength (vsub (basePosition p) T) * 0.97 ^ k"
proof -
  obtain tx ty tz where T: "T = (tx, ty, tz)" by (cases T) auto
  have "vsub (basePosition ((morph T ^^ k) p)) T
      = ((baseX p - tx) * 0.97 ^ k, (baseY p - ty) * 0.97 ^ k, (baseZ p - tz) * 0.97 ^ k)"
    by (simp add: T morph_iter morph_axis_iter basePosition_def vsub_def)
  moreover have "vsub (basePosition p) T = (baseX p - tx, baseY p - ty, baseZ p - tz)"
    by (simp add: T basePosition_def vsub_def)
  ultimately show ?thesis
    by (simp add: vlength_scale)
qed

section \<open>Frame without a song\<close>

text \<open>
  C9. While no parameter bundle has been provided (\<open>songData\<close> is null), the frame
  callback returns at once: every particle (position, velocity, base position and
  phase) and the random source are left as they were, whatever the pointer and the
  audio spectrum are.
\<close>

theorem useFrame_no_song:
  "useFrame count mesh None handPosition freqData particles rs = Some (particles, rs)"
  by (simp add: useFrame_def)

section \<open>The step stays within the finite reals\<close>

lemma unit_draws_snd_random: "unit_draws rs \<Longrightarrow> unit_draws (snd (random rs))"
  by (simp add: unit_draws_def random_def)

lemma getTargetPosition_defined:
  assumes "i < count" "unit_draws rs"
  shows "\<exists>T rs1. getTargetPosition i count sh rs = Some (T, rs1) \<and> unit_draws rs1"
proof -
  have star: "\<exists>T rs1. target_star i ph th rs = Some (T, rs1) \<and> unit_draws rs1" for ph th
  proof -
    have "0 \<le> fst (random rs)" "fst (random rs) < 1"
      using assms(2) by (simp_all add: unit_draws_random)
    then obtain w where w: "js_pow (fst (random rs)) 0.3 = Some w"
      using js_pow_unit by blast
    define q where "q = setFromSphericalCoords (w * 12) ph th"
    have "target_star i ph th rs
        = Some (if i mod 20 = 0 then multiplyScalar q 1.5 else q, snd (random rs))"
      by (simp add: target_star_def Let_def split_def w q_def)
    then show ?thesis
      using assms(2) unit_draws_snd_random by blast
  qed
  have cat: "unit_draws (snd (target_cat ratio ph th rs))" for ratio ph th
    using assms(2)
    by (simp add: target_cat_def Let_def split_def unit_draws_snd_random split: prod.splits)
  have flower: "unit_draws (snd (target_flower th rs))" for th
    using assms(2) by (simp add: target_flower_def Let_def split_def unit_draws_snd_random)
  have fish: "unit_draws (snd (target_fish ratio rs))" for ratio
    using assms(2)
    by (simp add: target_fish_def fish_body_def fish_tail_def Let_def split_def
        unit_draws_snd_random)
  show ?thesis
    using star cat flower fish assms(2)
    by (simp add: getTargetPosition_prelude [OF assms(1)] Let_def prod_eq_iff)
qed

lemma hand_interaction_defined:
  assumes "unit_draws rs"
  shows "\<exists>p' rs'. hand_interaction env p rs = Some (p', rs') \<and> unit_draws rs'"
proof -
  let ?s = "(p_x p - env_handX env) * (p_x p - env_handX env)
      + (p_y p - env_handY env) * (p_y p - env_handY env) + p_z p * p_z p"
  have "\<not> ?s < 0" by (simp add: not_less add_nonneg_nonneg)
  then have sq: "js_sqrt ?s = Some (sqrt ?s)" by (simp add: js_sqrt_def)
  have dv: "js_div d 25 = Some (d / 25)" for d by (simp add: js_div_def)
  show ?thesis
    using assms
    by (simp add: hand_interaction_def Let_def split_def sq dv unit_draws_snd_random)
qed

lemma update_particle_defined:
  assumes "i < env_count env" "unit_draws rs"
  shows "\<exists>p' rs'. update_particle env i p rs = Some (p', rs') \<and> unit_draws rs'"
proof -
  obtain T rs1 where t: "getTargetPosition i (env_count env) (env_shape env) rs = Some (T, rs1)"
      and u: "unit_draws rs1"
    using getTargetPosition_defined [OF assms] by blast
  define p2 where
    "p2 = (morph T p)\<lparr>p_t := p_t (morph T p) + env_speed env * (0.005 + env_bass env * 0.05)\<rparr>"
  have upd: "update_particle env i p rs =
      (case hand_interaction env p2 rs1 of
         None \<Rightarrow> None
       | Some (p3, rs2) \<Rightarrow> Some (integrate env (currentTarget env p2) p3, rs2))"
    unfolding p2_def by (simp add: update_particle_def t Let_def split: option.splits)
  obtain p3 rs2 where h: "hand_interaction env p2 rs1 = Some (p3, rs2)" and u2: "unit_draws rs2"
    using hand_interaction_defined [OF u] by blast
  show ?thesis
    using u2 by (simp add: upd h)
qed

lemma update_all_defined:
  assumes "i + length ps \<le> env_count env" "unit_draws rs"
  shows "\<exists>ps' rs'. update_all env i ps rs = Some (ps', rs') \<and> length ps' = length ps
           \<and> unit_draws rs'"
  using assms
proof (induction ps arbitrary: i rs)
  case Nil
  then show ?case by simp
next
  case (Cons p ps)
  have "i < env_count env" using Cons.prems(1) by simp
  then obtain p' rs1 where a: "update_particle env i p rs = Some (p', rs1)" and u: "unit_draws rs1"
    using update_particle_defined Cons.prems(2) by blast
  have "Suc i + length ps \<le> env_count env" using Cons.prems(1) by simp
  then obtain ps' rs2 where b: "update_all env (Suc i) ps rs1 = Some (ps', rs2)"
      and l: "length ps' = length ps" and u2: "unit_draws rs2"
    using Cons.IH u by blast
  show ?case by (simp add: a b l u2)
qed

lemma bass_of_defined: "bass_of freqData = Some (band_sum (take 10 freqData) / 10 / 255)"
  by (simp add: bass_of_def js_div_def)

lemma treble_of_defined:
  "treble_of freqData = Some (band_sum (take 50 (drop 100 freqData)) / 50 / 255)"
  by (simp add: treble_of_def js_div_def)

lemma useFrame_defined:
  assumes "length particles \<le> count" "unit_draws rs"
  shows "\<exists>ps' rs'. useFrame count mesh songData handPosition freqData particles rs
             = Some (ps', rs') \<and> length ps' = length particles \<and> unit_draws rs'"
proof (cases "\<not> mesh \<or> songData = None")
  case True
  then show ?thesis using assms(2) by (auto simp: useFrame_def)
next
  case False
  then obtain vp where s: "songData = Some vp" and m: mesh by auto
  show ?thesis
    using update_all_defined [of 0 particles _ rs] assms
    by (simp add: useFrame_def s m bass_of_defined treble_of_defined)
qed

text \<open>
  C4. For every shape and every particle state, if the pointer is detected and a
  particle sits exactly at the pointer's world position (\<open>dist = 0\<close>), one full frame
  step completes with a value for every number of every particle: no operation of the
  step, in particular no division of the interaction force, leaves the finite reals.
\<close>

theorem pointer_singularity_safe:
  assumes "isDetected handPosition"
    and "j < length particles" and "length particles \<le> count"
    and "position (particles ! j) = (hand_x handPosition * 30, hand_y handPosition * 20, 0)"
    and "unit_draws rs"
  shows "\<exists>ps' rs'. useFrame count True (Some vp) handPosition freqData particles rs
             = Some (ps', rs') \<and> length ps' = length particles"
  using useFrame_defined [OF assms(3,5)] by blast


theorem pointer_singularity_safe_witness:
  "isDetected active_hand \<and> (0::nat) < length [origin_particle]
   \<and> length [origin_particle] \<le> 1
   \<and> position ([origin_particle] ! 0) = (hand_x active_hand * 30, hand_y active_hand * 20, 0)
   \<and> unit_draws (constant_draws 0)
   \<and> (\<exists>ps' rs'. useFrame 1 True (Some fast_params) active_hand [] [origin_particle]
            (constant_draws 0) = Some (ps', rs') \<and> length ps' = length [origin_particle])"
  using pointer_singularity_safe [of active_hand 0 "[origin_particle]" 1 "constant_draws 0"
      fast_params "[]"]
  by (simp add: active_hand_def origin_particle_def position_def unit_draws_def
      constant_draws_def)

section \<open>Malformed visual parameters\<close>























section \<open>Colour assignment on a palette change\<close>






lemma floor_log_half:
  assumes "1 / 2 \<le> r" "r < 1"
  shows "\<lfloor>log 2 r\<rfloor> = - 1"
proof -
  have p: "0 < r" using assms by simp
  have "log 2 (1 / 2) \<le> log 2 r"
    using assms p by simp
  moreover have "log 2 (1 / 2) = - 1"
    by (simp add: log_divide)
  moreover have "log 2 r < 0"
    using assms p by simp
  ultimately show ?thesis
    by (simp add: floor_eq_iff)
qed




text \<open>The rounding decides the index: the double just below \<open>1/3\<close> times 3 rounds to 1,
  so with three colours this draw selects index 1, not index 0.\<close>

lemma color_index_rounding_example: "color_index 3 (6004799503160661 / 2 ^ 54) = 1"
proof -
  define x :: real where "x = 6004799503160661 / 2 ^ 54 * real (3::nat)"
  have x: "x = 18014398509481983 / 2 ^ 54" by (simp add: x_def)
  have "1 / 2 \<le> x" "x < 1" unfolding x by simp_all
  then have e: "\<lfloor>log 2 \<bar>x\<bar>\<rfloor> = - 1"
    using floor_log_half [of x] by simp
  have u: "(2::real) powr (of_int (max (- 1) (- 1022)) - 52) = 1 / 2 ^ 53"
    by (simp add: powr_minus_divide)
  have q: "x / (1 / 2 ^ 53) = of_int 9007199254740991 + 1 / 2"
    unfolding x by simp
  have f: "\<lfloor>of_int 9007199254740991 + (1 / 2 :: real)\<rfloor> = 9007199254740991"
    by (rule floor_unique) simp_all
  have "round_even (x / (1 / 2 ^ 53)) = 9007199254740992"
    unfolding q by (simp add: round_even_def Let_def f)
  moreover have "x \<noteq> 0" unfolding x by simp
  ultimately have "binary64 x = 1"
    unfolding binary64_def e Let_def u by simp
  then show ?thesis
    by (simp add: color_index_def x_def)
qed




section \<open>The idle sphere settles\<close>

lemma axis_energy_algebra:
  fixes e w :: real
  shows "5 * ((0.95 * e + 0.92 * w) * (0.95 * e + 0.92 * w))
       + 3 * ((0.95 * e + 0.92 * w) * (- 0.05 * e + 0.92 * w))
       + 92 * ((- 0.05 * e + 0.92 * w) * (- 0.05 * e + 0.92 * w))
     = 0.92 * (5 * (e * e) + 3 * (e * w) + 92 * (w * w))"
  by (simp add: algebra_simps)

lemma axis_energy_step:
  "axis_energy tgt (x + (v * 0.92 + (morph_axis tgt b - x) * 0.05))
       (v * 0.92 + (morph_axis tgt b - x) * 0.05) (morph_axis tgt b)
     = 0.92 * axis_energy tgt x v b"
proof -
  define e where "e = x - tgt - 9409 / 9400 * (b - tgt)"
  define w where "w = v + 291 / 9400 * (b - tgt)"
  define v' where "v' = v * 0.92 + (morph_axis tgt b - x) * 0.05"
  have e': "x + v' - tgt - 9409 / 9400 * (morph_axis tgt b - tgt) = 0.95 * e + 0.92 * w"
    by (simp add: e_def w_def v'_def morph_axis_def field_simps)
  have w': "v' + 291 / 9400 * (morph_axis tgt b - tgt) = - 0.05 * e + 0.92 * w"
    by (simp add: e_def w_def v'_def morph_axis_def field_simps)
  have "axis_energy tgt (x + v') v' (morph_axis tgt b)
      = 5 * ((0.95 * e + 0.92 * w) * (0.95 * e + 0.92 * w))
       + 3 * ((0.95 * e + 0.92 * w) * (- 0.05 * e + 0.92 * w))
       + 92 * ((- 0.05 * e + 0.92 * w) * (- 0.05 * e + 0.92 * w))"
    unfolding axis_energy_def Let_def e' w' ..
  also have "\<dots> = 0.92 * (5 * (e * e) + 3 * (e * w) + 92 * (w * w))"
    by (rule axis_energy_algebra)
  also have "\<dots> = 0.92 * axis_energy tgt x v b"
    unfolding axis_energy_def Let_def e_def w_def ..
  finally show ?thesis
    unfolding v'_def .
qed

lemma axis_energy_lower:
  "4 * (x - tgt - 9409 / 9400 * (b - tgt))\<^sup>2 \<le> axis_energy tgt x v b"
proof -
  define e where "e = x - tgt - 9409 / 9400 * (b - tgt)"
  define w where "w = v + 291 / 9400 * (b - tgt)"
  have "5 * (e * e) + 3 * (e * w) + 92 * (w * w) - 4 * e\<^sup>2
      = (e + 3 / 2 * w)\<^sup>2 + 359 / 4 * w\<^sup>2"
    by (simp add: power2_eq_square algebra_simps)
  moreover have "0 \<le> (e + 3 / 2 * w)\<^sup>2 + 359 / 4 * w\<^sup>2"
    by simp
  ultimately have "4 * e\<^sup>2 \<le> 5 * (e * e) + 3 * (e * w) + 92 * (w * w)"
    by linarith
  then show ?thesis
    by (simp add: axis_energy_def Let_def e_def w_def)
qed

lemma decay_092: "(0.92::real) ^ 500 \<le> 1 / 10 ^ 9"
proof -
  have "(0.92::real) ^ 500 = ((0.92 ^ 10) ^ 5) ^ 10"
    by (simp only: power_mult [symmetric]) simp
  also have "\<dots> \<le> ((0.44::real) ^ 5) ^ 10"
    by (intro power_mono) (simp_all add: power_divide)
  also have "\<dots> \<le> (0.017::real) ^ 10"
    by (intro power_mono) (simp_all add: power_divide)
  also have "\<dots> \<le> 1 / 10 ^ 9"
    by (simp add: power_divide)
  finally show ?thesis .
qed

lemma decay_097: "(0.97::real) ^ 500 \<le> 1 / 5000"
proof -
  have "(0.97::real) ^ 500 = ((0.97 ^ 10) ^ 5) ^ 10"
    by (simp only: power_mult [symmetric]) simp
  also have "\<dots> \<le> ((0.74::real) ^ 5) ^ 10"
    by (intro power_mono) (simp_all add: power_divide)
  also have "\<dots> \<le> (0.23::real) ^ 10"
    by (intro power_mono) (simp_all add: power_divide)
  also have "\<dots> \<le> 1 / 5000"
    by (simp add: power_divide)
  finally show ?thesis .
qed

lemma axis_settled_init:
  assumes "\<bar>x\<bar> \<le> 25" "\<bar>b\<bar> \<le> 10" "\<bar>tgt\<bar> \<le> 10"
  shows "axis_settled 0 tgt x 0 b"
proof -
  define e where "e = x - tgt - 9409 / 9400 * (b - tgt)"
  define w where "w = 291 / 9400 * (b - tgt)"
  have e: "\<bar>e\<bar> \<le> 56"
    using assms unfolding e_def by argo
  have w: "\<bar>w\<bar> \<le> 1"
    using assms unfolding w_def by argo
  have "e\<^sup>2 \<le> 56\<^sup>2" "w\<^sup>2 \<le> 1\<^sup>2"
    using e w by (simp_all only: power2_le_iff_abs_le)
  then have sq: "e * e \<le> 3136" "w * w \<le> 1"
    by (simp_all add: power2_eq_square)
  have "\<bar>e\<bar> * \<bar>w\<bar> \<le> 56 * 1"
    using e w by (intro mult_mono) simp_all
  then have "e * w \<le> 56"
    using abs_ge_self [of "e * w"] by (simp add: abs_mult)
  then have bound: "5 * (e * e) + 3 * (e * w) + 92 * (w * w) \<le> 16000"
    using sq by linarith
  have en: "axis_energy tgt x 0 b = 5 * (e * e) + 3 * (e * w) + 92 * (w * w)"
    unfolding axis_energy_def Let_def e_def w_def add_0_left ..
  have "\<bar>b - tgt\<bar> \<le> 20" using assms by argo
  then show ?thesis
    unfolding axis_settled_def en using bound by simp
qed

lemma axis_settled_step:
  assumes "axis_settled k tgt x v b"
  shows "axis_settled (Suc k) tgt (x + (v * 0.92 + (morph_axis tgt b - x) * 0.05))
       (v * 0.92 + (morph_axis tgt b - x) * 0.05) (morph_axis tgt b)"
proof -
  let ?v = "v * 0.92 + (morph_axis tgt b - x) * 0.05"
  have "axis_energy tgt x v b \<le> 16000 * 0.92 ^ k" and u: "\<bar>b - tgt\<bar> \<le> 20 * 0.97 ^ k"
    using assms by (simp_all add: axis_settled_def)
  then have "0.92 * axis_energy tgt x v b \<le> 0.92 * (16000 * 0.92 ^ k)"
    by (intro mult_left_mono) simp_all
  then have en: "axis_energy tgt (x + ?v) ?v (morph_axis tgt b) \<le> 16000 * 0.92 ^ Suc k"
    by (simp only: axis_energy_step) simp
  have "morph_axis tgt b - tgt = (b - tgt) * 0.97"
    by (simp add: morph_axis_def field_simps)
  then have "\<bar>morph_axis tgt b - tgt\<bar> = \<bar>b - tgt\<bar> * 0.97"
    by (simp only: abs_mult) simp
  moreover have "\<bar>b - tgt\<bar> * 0.97 \<le> 20 * 0.97 ^ k * 0.97"
    using u by (intro mult_right_mono) simp_all
  ultimately have "\<bar>morph_axis tgt b - tgt\<bar> \<le> 20 * 0.97 ^ Suc k"
    by simp
  with en show ?thesis
    unfolding axis_settled_def by (rule conjI)
qed

lemma axis_settled_final:
  assumes "axis_settled 500 tgt x v b"
  shows "\<bar>x - tgt\<bar> \<le> 1 / 100"
proof -
  define e where "e = x - tgt - 9409 / 9400 * (b - tgt)"
  have "4 * e\<^sup>2 \<le> axis_energy tgt x v b"
    unfolding e_def by (rule axis_energy_lower)
  also have "\<dots> \<le> 16000 * 0.92 ^ 500"
    using assms by (simp add: axis_settled_def)
  also have "\<dots> \<le> 16000 * (1 / 10 ^ 9)"
    by (intro mult_left_mono decay_092) simp
  finally have "e\<^sup>2 \<le> (1 / 200)\<^sup>2"
    by (simp add: power2_eq_square)
  then have "\<bar>e\<bar> \<le> \<bar>1 / 200\<bar>"
    by (simp only: abs_le_square_iff)
  then have e: "\<bar>e\<bar> \<le> 1 / 200"
    by simp
  have "\<bar>b - tgt\<bar> \<le> 20 * 0.97 ^ 500"
    using assms by (simp add: axis_settled_def)
  also have "\<dots> \<le> 20 * (1 / 5000)"
    by (intro mult_left_mono decay_097) simp
  finally have u: "\<bar>b - tgt\<bar> \<le> 1 / 250" by simp
  have "x - tgt = e + 9409 / 9400 * (b - tgt)"
    by (simp add: e_def)
  then show ?thesis
    using e u by argo
qed

lemma sphere_target_props:
  assumes "sphere_target count i = (a, b, c)"
  shows "\<bar>a\<bar> \<le> 10" "\<bar>b\<bar> \<le> 10" "\<bar>c\<bar> \<le> 10" "a * a + b * b + c * c = 100"
proof -
  obtain ph th where s: "setFromSphericalCoords 10 ph th = (a, b, c)"
    using assms by (auto simp: sphere_target_def target_sphere_def Let_def)
  show "\<bar>a\<bar> \<le> 10" "\<bar>b\<bar> \<le> 10" "\<bar>c\<bar> \<le> 10"
    using spherical_components [OF _ s] by simp_all
  show "a * a + b * b + c * c = 100"
    using spherical_length_sq [of 10 ph th] by (simp add: s)
qed

lemma getTargetPosition_sphere:
  assumes "i < count"
  shows "getTargetPosition i count ''sphere'' rs = Some (sphere_target count i, rs)"
  by (simp add: getTargetPosition_prelude [OF assms] sphere_target_def Let_def)

lemma update_particle_idle:
  assumes "i < env_count env" "env_shape env = ''sphere''" "env_chaos env = 0"
    and "\<not> env_isHandActive env"
  shows "update_particle env i p rs =
     Some (idle_update (sphere_target (env_count env) i)
             (env_speed env * (0.005 + env_bass env * 0.05)) p, rs)"
proof -
  obtain tx ty tz where T: "sphere_target (env_count env) i = (tx, ty, tz)"
    by (cases "sphere_target (env_count env) i") auto
  show ?thesis
    using assms(2-4)
    by (simp add: update_particle_def getTargetPosition_sphere [OF assms(1)] T morph_def
        currentTarget_def noiseScale_of_def hand_interaction_def integrate_def
        idle_update_def Let_def)
qed

lemma idle_update_fields:
  "p_x (idle_update (tx, ty, tz) dt p)
     = p_x p + (vx p * 0.92 + (morph_axis tx (baseX p) - p_x p) * 0.05)"
  "vx (idle_update (tx, ty, tz) dt p) = vx p * 0.92 + (morph_axis tx (baseX p) - p_x p) * 0.05"
  "baseX (idle_update (tx, ty, tz) dt p) = morph_axis tx (baseX p)"
  "p_y (idle_update (tx, ty, tz) dt p)
     = p_y p + (vy p * 0.92 + (morph_axis ty (baseY p) - p_y p) * 0.05)"
  "vy (idle_update (tx, ty, tz) dt p) = vy p * 0.92 + (morph_axis ty (baseY p) - p_y p) * 0.05"
  "baseY (idle_update (tx, ty, tz) dt p) = morph_axis ty (baseY p)"
  "p_z (idle_update (tx, ty, tz) dt p)
     = p_z p + (vz p * 0.92 + (morph_axis tz (baseZ p) - p_z p) * 0.05)"
  "vz (idle_update (tx, ty, tz) dt p) = vz p * 0.92 + (morph_axis tz (baseZ p) - p_z p) * 0.05"
  "baseZ (idle_update (tx, ty, tz) dt p) = morph_axis tz (baseZ p)"
  by (simp_all add: idle_update_def)

lemma settled_step:
  assumes "settled k T p"
  shows "settled (Suc k) T (idle_update T dt p)"
proof -
  obtain tx ty tz where T: "T = (tx, ty, tz)" by (cases T) auto
  have a: "axis_settled k tx (p_x p) (vx p) (baseX p)"
    and b: "axis_settled k ty (p_y p) (vy p) (baseY p)"
    and c: "axis_settled k tz (p_z p) (vz p) (baseZ p)"
    using assms by (simp_all add: settled_def T)
  show ?thesis
    unfolding settled_def T prod.case idle_update_fields
    by (intro conjI axis_settled_step a b c)
qed

lemma settled_init:
  assumes "initial_state p" "sphere_target count i = T"
  shows "settled 0 T p"
proof -
  obtain tx ty tz where T: "T = (tx, ty, tz)" by (cases T) auto
  have t: "\<bar>tx\<bar> \<le> 10" "\<bar>ty\<bar> \<le> 10" "\<bar>tz\<bar> \<le> 10"
    using sphere_target_props [of count i tx ty tz] assms(2) T by simp_all
  show ?thesis
    using assms(1) t
    by (simp add: settled_def T initial_state_def axis_settled_init)
qed

lemma square_near:
  fixes a e :: real
  assumes "\<bar>a\<bar> \<le> 10" "\<bar>e\<bar> \<le> 1 / 100"
  shows "\<bar>(a + e) * (a + e) - a * a\<bar> \<le> 1 / 4"
proof -
  have "\<bar>a\<bar> * \<bar>e\<bar> \<le> 10 * (1 / 100)"
    using assms by (intro mult_mono) simp_all
  then have ae: "\<bar>a * e\<bar> \<le> 1 / 10" by (simp add: abs_mult)
  have "\<bar>e\<bar> * \<bar>e\<bar> \<le> 1 / 100 * (1 / 100)"
    using assms by (intro mult_mono) simp_all
  then have ee: "\<bar>e * e\<bar> \<le> 1 / 10000" by (simp add: abs_mult)
  define m q where "m = a * e" and "q = e * e"
  have m: "m \<le> 1 / 10" "- m \<le> 1 / 10"
    using abs_le_D1 [OF ae] abs_le_D2 [OF ae] by (simp_all add: m_def)
  have q: "q \<le> 1 / 10000" "- q \<le> 1 / 10000"
    using abs_le_D1 [OF ee] abs_le_D2 [OF ee] by (simp_all add: q_def)
  have eq: "(a + e) * (a + e) - a * a = 2 * m + q"
    by (simp add: m_def q_def algebra_simps)
  have "2 * m + q \<le> 1 / 4" "- (2 * m + q) \<le> 1 / 4"
    using m q by linarith+
  then show ?thesis
    unfolding eq by (rule abs_leI)
qed

lemma settled_final:
  assumes "settled 500 (sphere_target count i) p"
  shows "9.8 \<le> vlength (position p)" "vlength (position p) \<le> 10.2"
proof -
  obtain a b c where T: "sphere_target count i = (a, b, c)"
    by (cases "sphere_target count i") auto
  note t = sphere_target_props [OF T]
  have ax: "axis_settled 500 a (p_x p) (vx p) (baseX p)"
    and ay: "axis_settled 500 b (p_y p) (vy p) (baseY p)"
    and az: "axis_settled 500 c (p_z p) (vz p) (baseZ p)"
    using assms by (simp_all add: settled_def T)
  have "\<bar>(a + (p_x p - a)) * (a + (p_x p - a)) - a * a\<bar> \<le> 1 / 4"
    by (rule square_near [OF t(1) axis_settled_final [OF ax]])
  then have dx: "\<bar>p_x p * p_x p - a * a\<bar> \<le> 1 / 4" by simp
  have "\<bar>(b + (p_y p - b)) * (b + (p_y p - b)) - b * b\<bar> \<le> 1 / 4"
    by (rule square_near [OF t(2) axis_settled_final [OF ay]])
  then have dy: "\<bar>p_y p * p_y p - b * b\<bar> \<le> 1 / 4" by simp
  have "\<bar>(c + (p_z p - c)) * (c + (p_z p - c)) - c * c\<bar> \<le> 1 / 4"
    by (rule square_near [OF t(3) axis_settled_final [OF az]])
  then have dz: "\<bar>p_z p * p_z p - c * c\<bar> \<le> 1 / 4" by simp
  define sx sy sz where "sx = p_x p * p_x p" and "sy = p_y p * p_y p" and "sz = p_z p * p_z p"
  define ta tb tc where "ta = a * a" and "tb = b * b" and "tc = c * c"
  have sum: "ta + tb + tc = 100" using t(4) by (simp add: ta_def tb_def tc_def)
  have d: "\<bar>sx - ta\<bar> \<le> 1 / 4" "\<bar>sy - tb\<bar> \<le> 1 / 4" "\<bar>sz - tc\<bar> \<le> 1 / 4"
    using dx dy dz by (simp_all add: sx_def sy_def sz_def ta_def tb_def tc_def)
  have "9604 / 100 \<le> sx + sy + sz" "sx + sy + sz \<le> 10404 / 100"
    using sum abs_le_D1 [OF d(1)] abs_le_D2 [OF d(1)] abs_le_D1 [OF d(2)] abs_le_D2 [OF d(2)]
      abs_le_D1 [OF d(3)] abs_le_D2 [OF d(3)]
    by linarith+
  then have lo: "(98 / 10)\<^sup>2 \<le> p_x p * p_x p + p_y p * p_y p + p_z p * p_z p"
    and hi: "p_x p * p_x p + p_y p * p_y p + p_z p * p_z p \<le> (102 / 10)\<^sup>2"
    by (simp_all add: power2_eq_square sx_def sy_def sz_def)
  have "98 / 10 \<le> sqrt (p_x p * p_x p + p_y p * p_y p + p_z p * p_z p)"
    using lo by (rule real_le_rsqrt)
  moreover have "sqrt (p_x p * p_x p + p_y p * p_y p + p_z p * p_z p) \<le> 102 / 10"
    using hi by (intro real_le_lsqrt) simp_all
  ultimately show "9.8 \<le> vlength (position p)" "vlength (position p) \<le> 10.2"
    by (simp_all add: vlength_def position_def)
qed

lemma update_all_idle:
  assumes "env_shape env = ''sphere''" "env_chaos env = 0" "\<not> env_isHandActive env"
    and "i + length ps \<le> env_count env"
  shows "\<exists>ps'. update_all env i ps rs = Some (ps', rs) \<and> length ps' = length ps
      \<and> (\<forall>j<length ps. ps' ! j =
            idle_update (sphere_target (env_count env) (i + j))
              (env_speed env * (0.005 + env_bass env * 0.05)) (ps ! j))"
  using assms(4)
proof (induction ps arbitrary: i)
  case Nil
  then show ?case by simp
next
  case (Cons p ps)
  have i: "i < env_count env" using Cons.prems by simp
  have "Suc i + length ps \<le> env_count env" using Cons.prems by simp
  from Cons.IH [OF this] obtain ps' where
    r: "update_all env (Suc i) ps rs = Some (ps', rs)" and l: "length ps' = length ps"
    and e: "\<forall>j<length ps. ps' ! j =
            idle_update (sphere_target (env_count env) (Suc i + j))
              (env_speed env * (0.005 + env_bass env * 0.05)) (ps ! j)"
    by blast
  let ?q = "idle_update (sphere_target (env_count env) i)
      (env_speed env * (0.005 + env_bass env * 0.05)) p"
  have u: "update_all env i (p # ps) rs = Some (?q # ps', rs)"
    by (simp del: idle_update_def add: update_particle_idle [OF i assms(1-3)] r)
  have "(?q # ps') ! j = idle_update (sphere_target (env_count env) (i + j))
              (env_speed env * (0.005 + env_bass env * 0.05)) ((p # ps) ! j)"
    if "j < length (p # ps)" for j
    using that e by (cases j) simp_all
  then show ?case
    using u l by auto
qed

lemma useFrame_idle:
  assumes "shape vp = ''sphere''" "chaos vp = 0" "\<not> isDetected handPosition"
    and "length ps \<le> count"
    and "\<forall>j<length ps. settled k (sphere_target count j) (ps ! j)"
  shows "\<exists>ps'. useFrame count True (Some vp) handPosition freqData ps rs = Some (ps', rs)
      \<and> length ps' = length ps
      \<and> (\<forall>j<length ps. settled (Suc k) (sphere_target count j) (ps' ! j))"
proof -
  let ?env = "\<lparr>env_count = count, env_shape = shape vp, env_speed = speed vp,
      env_chaos = chaos vp, env_bass = band_sum (take 10 freqData) / 10 / 255,
      env_handX = hand_x handPosition * 30, env_handY = hand_y handPosition * 20,
      env_isHandActive = isDetected handPosition\<rparr>"
  have f: "useFrame count True (Some vp) handPosition freqData ps rs = update_all ?env 0 ps rs"
    by (simp add: useFrame_def bass_of_defined treble_of_defined)
  obtain ps' where r: "update_all ?env 0 ps rs = Some (ps', rs)" and l: "length ps' = length ps"
    and e: "\<forall>j<length ps. ps' ! j =
            idle_update (sphere_target (env_count ?env) (0 + j))
              (env_speed ?env * (0.005 + env_bass ?env * 0.05)) (ps ! j)"
    using update_all_idle [of ?env 0 ps rs] assms(1-4) by auto
  have "settled (Suc k) (sphere_target count j) (ps' ! j)" if "j < length ps" for j
    using e that assms(5) settled_step [of k "sphere_target count j" "ps ! j"] by simp
  then show ?thesis
    using f r l by simp
qed

lemma run_frames_idle:
  assumes "shape vp = ''sphere''" "chaos vp = 0" "\<not> isDetected handPosition"
    and "length ps \<le> count"
    and "\<forall>j<length ps. settled k (sphere_target count j) (ps ! j)"
  shows "\<exists>ps'. run_frames n count True (Some vp) handPosition freqData ps rs = Some (ps', rs)
      \<and> length ps' = length ps
      \<and> (\<forall>j<length ps. settled (k + n) (sphere_target count j) (ps' ! j))"
  using assms(4,5)
proof (induction n arbitrary: ps k)
  case 0
  then show ?case by simp
next
  case (Suc n)
  obtain ps1 where
    a: "useFrame count True (Some vp) handPosition freqData ps rs = Some (ps1, rs)"
    and l: "length ps1 = length ps"
    and s: "\<forall>j<length ps. settled (Suc k) (sphere_target count j) (ps1 ! j)"
    using useFrame_idle [OF assms(1-3) Suc.prems] by blast
  have "length ps1 \<le> count" using l Suc.prems(1) by simp
  moreover have "\<forall>j<length ps1. settled (Suc k) (sphere_target count j) (ps1 ! j)"
    using s l by simp
  ultimately obtain ps' where
    "run_frames n count True (Some vp) handPosition freqData ps1 rs = Some (ps', rs)"
    "length ps' = length ps1"
    "\<forall>j<length ps1. settled (Suc k + n) (sphere_target count j) (ps' ! j)"
    using Suc.IH by blast
  then show ?case
    using a l by simp
qed

lemma new_particle_initial:
  assumes "unit_draws rs"
  shows "initial_state (fst (new_particle rs))" "unit_draws (snd (new_particle rs))"
proof -
  have d: "0 \<le> rs n" "rs n < 1" for n
    using assms by (simp_all add: unit_draws_def)
  have b: "\<bar>(rs n - 0.5) * 50\<bar> \<le> 25" "\<bar>(rs n - 0.5) * 20\<bar> \<le> 10" for n
    using d [of n] by (simp_all add: abs_le_iff)
  have "initial_state
     \<lparr>p_t = rs 0 * 100,
      p_x = (rs 1 - 0.5) * 50, p_y = (rs 2 - 0.5) * 50, p_z = (rs 3 - 0.5) * 50,
      baseX = (rs 4 - 0.5) * 20, baseY = (rs 5 - 0.5) * 20, baseZ = (rs 6 - 0.5) * 20,
      vx = 0, vy = 0, vz = 0\<rparr>"
    unfolding initial_state_def particle.simps by (intro conjI b refl)
  moreover have "fst (new_particle rs) =
     \<lparr>p_t = rs 0 * 100,
      p_x = (rs 1 - 0.5) * 50, p_y = (rs 2 - 0.5) * 50, p_z = (rs 3 - 0.5) * 50,
      baseX = (rs 4 - 0.5) * 20, baseY = (rs 5 - 0.5) * 20, baseZ = (rs 6 - 0.5) * 20,
      vx = 0, vy = 0, vz = 0\<rparr>"
    by (simp add: new_particle_def random_def Let_def numeral_eq_Suc)
  ultimately show "initial_state (fst (new_particle rs))"
    by simp
  show "unit_draws (snd (new_particle rs))"
    using assms by (simp add: new_particle_def Let_def split_def unit_draws_snd_random)
qed

lemma init_particles_initial:
  assumes "unit_draws rs"
  shows "length (fst (init_particles n rs)) = n \<and> list_all initial_state (fst (init_particles n rs))
      \<and> unit_draws (snd (init_particles n rs))"
  using assms
proof (induction n arbitrary: rs)
  case 0
  then show ?case by simp
next
  case (Suc n)
  have "unit_draws (snd (new_particle rs))" "initial_state (fst (new_particle rs))"
    using new_particle_initial [OF Suc.prems] by simp_all
  then show ?case
    using Suc.IH [of "snd (new_particle rs)"] by (simp add: split_def Let_def)
qed

text \<open>
  C2. Start from any initial particle state (positions in \<open>[-25, 25]\<^sup>3\<close>, base
  positions in \<open>[-10, 10]\<^sup>3\<close>, velocities zero; the store that \<open>init_particles\<close> builds is
  one) and run the frame step 500 times with \<open>shape = sphere\<close>, \<open>chaos = 0\<close> and the
  pointer not detected. Then all 500 frames complete and every particle's position is at
  a distance from the origin within \<open>[9.8, 10.2]\<close>. This holds for every particle count
  (100 in particular), every speed (0 in particular) and every audio spectrum (silence
  in particular).
\<close>

theorem idle_sphere_settles:
  assumes "shape vp = ''sphere''" and "chaos vp = 0" and "\<not> isDetected handPosition"
    and "length particles = count" and "list_all initial_state particles"
  shows "\<exists>ps rs'. run_frames 500 count True (Some vp) handPosition freqData particles rs
            = Some (ps, rs')
         \<and> length ps = count
         \<and> list_all (\<lambda>p. 9.8 \<le> vlength (position p) \<and> vlength (position p) \<le> 10.2) ps"
proof -
  have init: "\<forall>j<length particles. settled 0 (sphere_target count j) (particles ! j)"
    using assms(5) by (simp add: list_all_length settled_init)
  obtain ps where
    r: "run_frames 500 count True (Some vp) handPosition freqData particles rs = Some (ps, rs)"
    and l: "length ps = length particles"
    and s: "\<forall>j<length particles. settled (0 + 500) (sphere_target count j) (ps ! j)"
    using run_frames_idle [OF assms(1-3) _ init, of 500 freqData rs] assms(4) by auto
  have "9.8 \<le> vlength (position (ps ! j)) \<and> vlength (position (ps ! j)) \<le> 10.2"
    if "j < length ps" for j
    using s l that settled_final [of count j "ps ! j"] by simp
  then have "list_all (\<lambda>p. 9.8 \<le> vlength (position p) \<and> vlength (position p) \<le> 10.2) ps"
    by (simp add: list_all_length)
  then show ?thesis
    using r l assms(4) by simp
qed

theorem idle_sphere_settles_witness:
  "shape calm_params = ''sphere'' \<and> chaos calm_params = 0 \<and> \<not> isDetected idle_hand
   \<and> length (fst (init_particles 100 (constant_draws (1 / 2)))) = 100
   \<and> list_all initial_state (fst (init_particles 100 (constant_draws (1 / 2))))
   \<and> (\<exists>ps rs'. run_frames 500 100 True (Some calm_params) idle_hand []
            (fst (init_particles 100 (constant_draws (1 / 2))))
            (snd (init_particles 100 (constant_draws (1 / 2)))) = Some (ps, rs')
         \<and> length ps = 100
         \<and> list_all (\<lambda>p. 9.8 \<le> vlength (position p) \<and> vlength (position p) \<le> 10.2) ps)"
proof -
  have u: "unit_draws (constant_draws (1 / 2))"
    by (simp add: unit_draws_def constant_draws_def)
  have h1: "shape calm_params = ''sphere''" and h2: "chaos calm_params = 0"
    by (simp_all add: calm_params_def)
  have h3: "\<not> isDetected idle_hand"
    by (simp add: idle_hand_def)
  have h4: "length (fst (init_particles 100 (constant_draws (1 / 2)))) = 100"
    and h5: "list_all initial_state (fst (init_particles 100 (constant_draws (1 / 2))))"
    using init_particles_initial [OF u, of 100] by simp_all
  show ?thesis
    using h1 h2 h3 h4 h5 idle_sphere_settles [OF h1 h2 h3 h4 h5]
    by (intro conjI) blast+
qed

end
